theory Spec2Isabelle
  imports Main
begin

section \<open>Key-format converters (src/components/converter/converter.tsx)\<close>

subsection \<open>String enums\<close>

text \<open>
  Every enum of the module is a TypeScript string enum: at run time a member is its string
  value. Each enum is a datatype together with the function giving that string.
\<close>

datatype CurveName = NIST_P256 | NIST_P384 | NIST_P521 | Secp256k1

fun CurveName_value :: "CurveName \<Rightarrow> string" where
  "CurveName_value NIST_P256 = ''nistp256''"
| "CurveName_value NIST_P384 = ''nistp384''"
| "CurveName_value NIST_P521 = ''nistp521''"
| "CurveName_value Secp256k1 = ''secp256k1''"

datatype Pkcs1Format = PKCS1_PEM | PKCS1_DER

datatype Sec1Format = SEC1_PEM | SEC1_DER

datatype Pkcs8Format = PKCS8_PEM | PKCS8_DER

fun Pkcs1Format_value :: "Pkcs1Format \<Rightarrow> string" where
  "Pkcs1Format_value PKCS1_PEM = ''pkcs1_pem''"
| "Pkcs1Format_value PKCS1_DER = ''pkcs1_der''"

fun Sec1Format_value :: "Sec1Format \<Rightarrow> string" where
  "Sec1Format_value SEC1_PEM = ''sec1_pem''"
| "Sec1Format_value SEC1_DER = ''sec1_der''"

fun Pkcs8Format_value :: "Pkcs8Format \<Rightarrow> string" where
  "Pkcs8Format_value PKCS8_PEM = ''pkcs8_pem''"
| "Pkcs8Format_value PKCS8_DER = ''pkcs8_der''"

text \<open>\<^verbatim>\<open>type PkcsFormat = Pkcs8Format | Sec1Format | Pkcs1Format\<close>\<close>

datatype PkcsFormat = P8 Pkcs8Format | S1 Sec1Format | P1 Pkcs1Format

fun PkcsFormat_value :: "PkcsFormat \<Rightarrow> string" where
  "PkcsFormat_value (P8 f) = Pkcs8Format_value f"
| "PkcsFormat_value (S1 f) = Sec1Format_value f"
| "PkcsFormat_value (P1 f) = Pkcs1Format_value f"

datatype Pkcs = Pkcs1 | Pkcs8 | Sec1

fun Pkcs_value :: "Pkcs \<Rightarrow> string" where
  "Pkcs_value Pkcs1 = ''pkcs1''"
| "Pkcs_value Pkcs8 = ''pkcs8''"
| "Pkcs_value Sec1 = ''sec1''"

datatype KeyFormat = Pem | Der

fun KeyFormat_value :: "KeyFormat \<Rightarrow> string" where
  "KeyFormat_value Pem = ''pem''"
| "KeyFormat_value Der = ''der''"

subsection \<open>PkcsEncodingProps objects and the store\<close>

text \<open>
  \<^verbatim>\<open>class PkcsEncodingProps { pkcs; format; encoding? }\<close>. The type \<open>TextEncoding\<close> is
  imported from \<^verbatim>\<open>../codec/codec\<close>; it stays a type parameter \<open>'te\<close>. A missing
  \<open>encoding\<close> (JavaScript \<open>undefined\<close>) is \<open>None\<close>.
\<close>

record 'te PkcsEncodingProps =
  pkcs :: Pkcs
  format :: KeyFormat
  encoding :: "'te option"

text \<open>
  A value of class type is a reference. The store holds every allocated instance; a
  reference is the index of its object, \<open>new\<close> appends, and \<open>===\<close> on two objects
  compares the references. A reference \<open>r\<close> is live in \<open>h\<close> when \<open>r < length h\<close>.
\<close>

type_synonym ref = nat

type_synonym 'te heap = "'te PkcsEncodingProps list"

definition new_PkcsEncodingProps ::
  "'te heap \<Rightarrow> Pkcs \<Rightarrow> KeyFormat \<Rightarrow> 'te heap \<times> ref" where
  "new_PkcsEncodingProps h p keyFormat =
     (h @ [\<lparr>pkcs = p, format = keyFormat, encoding = None\<rparr>], length h)"

text \<open>\<^verbatim>\<open>setEncoding(encoding) { this.encoding = encoding; return this; }\<close>\<close>

definition setEncoding :: "'te heap \<Rightarrow> ref \<Rightarrow> 'te \<Rightarrow> 'te heap \<times> ref" where
  "setEncoding h this e = (h[this := (h ! this)\<lparr>encoding := Some e\<rparr>], this)"

subsection \<open>The PkcsFormats table\<close>

text \<open>
  The object literal is evaluated once, when the module is loaded: six constructor calls in
  the written order, on a store that holds no instance of the class yet. The result is the
  store after the six allocations and the table from property key to reference.
\<close>

definition PkcsFormats :: "'te heap \<times> (string \<times> ref) list" where
  "PkcsFormats =
     (let (h1, r1) = new_PkcsEncodingProps [] Pkcs8 Pem;
          (h2, r2) = new_PkcsEncodingProps h1 Pkcs8 Der;
          (h3, r3) = new_PkcsEncodingProps h2 Pkcs1 Pem;
          (h4, r4) = new_PkcsEncodingProps h3 Pkcs1 Der;
          (h5, r5) = new_PkcsEncodingProps h4 Sec1 Pem;
          (h6, r6) = new_PkcsEncodingProps h5 Sec1 Der
      in (h6, [(''pkcs8_pem'', r1), (''pkcs8_der'', r2),
               (''pkcs1_pem'', r3), (''pkcs1_der'', r4),
               (''sec1_pem'', r5), (''sec1_der'', r6)]))"

definition PkcsFormats_heap :: "'te heap" where
  "PkcsFormats_heap = fst PkcsFormats"

text \<open>
  \<^verbatim>\<open>PkcsFormats[id]\<close>: property lookup by the identifier's string value. The references
  in the table do not depend on the type standing for TextEncoding, so the table is read
  off the store at \<open>unit\<close>.
\<close>

definition PkcsFormats_get :: "PkcsFormat \<Rightarrow> ref option" where
  "PkcsFormats_get ident =
     map_of (snd (PkcsFormats :: unit heap \<times> (string \<times> ref) list)) (PkcsFormat_value ident)"

subsection \<open>The crypto provider\<close>

text \<open>
  \<^verbatim>\<open>invoke(cmd, args)\<close> sends one request to the native provider. The request holds the
  command and the argument object; the two PkcsEncodingProps arguments are serialised, so
  the request holds their field values at the time of the call.
\<close>

datatype 'te request =
    rsa_transfer_key string string "'te PkcsEncodingProps" "'te PkcsEncodingProps"
  | ecc_transfer_key CurveName string string "'te PkcsEncodingProps" "'te PkcsEncodingProps"

text \<open>
  A promise settles with a failure or with the key texts. A failure is either the
  \<^verbatim>\<open>Error\<close> a converter throws (with its message) or the rejection of \<^verbatim>\<open>invoke\<close>,
  passed on unchanged.
\<close>

datatype failure = JsError string | ProviderFailure string

type_synonym 'te provider = "'te request \<Rightarrow> string + string list"

text \<open>The outcome of a call together with the provider requests it issued, in order.\<close>

type_synonym 'te effect = "(failure + string list) \<times> 'te request list"

definition invoke :: "'te provider \<Rightarrow> 'te request \<Rightarrow> 'te effect" where
  "invoke provider req =
     (case provider req of
        Inl msg \<Rightarrow> (Inl (ProviderFailure msg), [req])
      | Inr keys \<Rightarrow> (Inr keys, [req]))"

subsection \<open>Converter.defaultConvert\<close>

text \<open>
  The abstract class is generic in \<open>T\<close>; \<open>this.convert\<close> is the subclass's method, here the
  first argument. \<open>from === to\<close> is equality of values of \<open>T\<close>: for the four converters of
  this module \<open>T\<close> is PkcsEncodingProps, so it is equality of references.
\<close>

definition defaultConvert ::
  "(string \<Rightarrow> string \<Rightarrow> 't \<Rightarrow> 't \<Rightarrow> (failure + string list) \<times> 'c list)
    \<Rightarrow> string \<Rightarrow> string \<Rightarrow> 't \<Rightarrow> 't \<Rightarrow> (failure + string list) \<times> 'c list" where
  "defaultConvert convert privateKey publicKey from to =
     (if from = to then (Inr [privateKey, publicKey], [])
      else convert privateKey publicKey from to)"

subsection \<open>The four converters\<close>

text \<open>
  The message of the thrown Error is a template literal; \<^verbatim>\<open>${from.encoding}\<close> prints
  \<^verbatim>\<open>undefined\<close> for a missing encoding and the string form of the TextEncoding otherwise.
  That string form belongs to the imported codec module and is the parameter \<open>show_te\<close>.
\<close>

definition encoding_text :: "('te \<Rightarrow> string) \<Rightarrow> 'te option \<Rightarrow> string" where
  "encoding_text show_te e = (case e of None \<Rightarrow> ''undefined'' | Some x \<Rightarrow> show_te x)"

definition unsupported_message ::
  "('te \<Rightarrow> string) \<Rightarrow> 'te PkcsEncodingProps \<Rightarrow> 'te PkcsEncodingProps \<Rightarrow> string" where
  "unsupported_message show_te f t =
     ''unsupported pkcs: '' @ Pkcs_value (pkcs f) @ '' encoding: ''
       @ encoding_text show_te (encoding f) @ '' convert pkcs: '' @ Pkcs_value (pkcs t)
       @ '' encoding: '' @ encoding_text show_te (encoding t)"

definition RsaPkcsConverter_convert ::
  "('te \<Rightarrow> string) \<Rightarrow> 'te provider \<Rightarrow> 'te heap
    \<Rightarrow> string \<Rightarrow> string \<Rightarrow> ref \<Rightarrow> ref \<Rightarrow> 'te effect" where
  "RsaPkcsConverter_convert show_te provider h privateKey publicKey from to =
     (let f = h ! from; t = h ! to in
      if (pkcs f = Pkcs8 \<and> pkcs t = Pkcs1)
         \<or> (pkcs f = Pkcs1 \<and> pkcs t = Pkcs8)
         \<or> (pkcs f = Pkcs8 \<and> pkcs t = Pkcs8)
         \<or> (pkcs f = Pkcs1 \<and> pkcs t = Pkcs1)
      then invoke provider (rsa_transfer_key privateKey publicKey f t)
      else (Inl (JsError (unsupported_message show_te f t)), []))"

text \<open>
  The elliptic-curve converters are objects with one mutable field, \<open>curveName\<close>,
  initialised to \<open>CurveName.NIST_P256\<close>.
\<close>

record EccPkcsConverter =
  curveName :: CurveName

definition new_EccPkcsConverter :: EccPkcsConverter where
  "new_EccPkcsConverter = \<lparr>EccPkcsConverter.curveName = NIST_P256\<rparr>"

definition EccPkcsConverter_setCurveName ::
  "EccPkcsConverter \<Rightarrow> CurveName \<Rightarrow> EccPkcsConverter" where
  "EccPkcsConverter_setCurveName this c = this\<lparr>EccPkcsConverter.curveName := c\<rparr>"

definition EccPkcsConverter_convert ::
  "('te \<Rightarrow> string) \<Rightarrow> 'te provider \<Rightarrow> 'te heap \<Rightarrow> EccPkcsConverter
    \<Rightarrow> string \<Rightarrow> string \<Rightarrow> ref \<Rightarrow> ref \<Rightarrow> 'te effect" where
  "EccPkcsConverter_convert show_te provider h this privateKey publicKey from to =
     (let f = h ! from; t = h ! to in
      if (pkcs f = Pkcs8 \<and> pkcs t = Sec1)
         \<or> (pkcs f = Sec1 \<and> pkcs t = Pkcs8)
         \<or> (pkcs f = Pkcs8 \<and> pkcs t = Pkcs8)
         \<or> (pkcs f = Sec1 \<and> pkcs t = Sec1)
      then invoke provider
             (ecc_transfer_key (EccPkcsConverter.curveName this) privateKey publicKey f t)
      else (Inl (JsError (unsupported_message show_te f t)), []))"

definition RsaEncodingConverter_convert ::
  "'te provider \<Rightarrow> 'te heap \<Rightarrow> string \<Rightarrow> string \<Rightarrow> ref \<Rightarrow> ref \<Rightarrow> 'te effect" where
  "RsaEncodingConverter_convert provider h privateKey publicKey from to =
     invoke provider (rsa_transfer_key privateKey publicKey (h ! from) (h ! to))"

record EccEncodingConverter =
  curveName :: CurveName

definition new_EccEncodingConverter :: EccEncodingConverter where
  "new_EccEncodingConverter = \<lparr>EccEncodingConverter.curveName = NIST_P256\<rparr>"

definition EccEncodingConverter_setCurveName ::
  "EccEncodingConverter \<Rightarrow> CurveName \<Rightarrow> EccEncodingConverter" where
  "EccEncodingConverter_setCurveName this c = this\<lparr>EccEncodingConverter.curveName := c\<rparr>"

definition EccEncodingConverter_convert ::
  "'te provider \<Rightarrow> 'te heap \<Rightarrow> EccEncodingConverter
    \<Rightarrow> string \<Rightarrow> string \<Rightarrow> ref \<Rightarrow> ref \<Rightarrow> 'te effect" where
  "EccEncodingConverter_convert provider h this privateKey publicKey from to =
     invoke provider
       (ecc_transfer_key (EccEncodingConverter.curveName this) privateKey publicKey
          (h ! from) (h ! to))"

subsection \<open>A caller of one elliptic-curve converter instance\<close>

text \<open>
  The method calls a client makes on one converter object, in program order, and the
  provider requests they issue. \<open>convert\<close> and \<open>defaultConvert\<close> read \<open>this.curveName\<close>
  when they are called and never assign it; only \<open>setCurveName\<close> does.
\<close>

datatype call =
    SetCurveName CurveName
  | Convert string string ref ref
  | DefaultConvert string string ref ref

fun EccPkcsConverter_requests ::
  "('te \<Rightarrow> string) \<Rightarrow> 'te provider \<Rightarrow> 'te heap \<Rightarrow> EccPkcsConverter
    \<Rightarrow> call list \<Rightarrow> 'te request list" where
  "EccPkcsConverter_requests show_te provider h this [] = []"
| "EccPkcsConverter_requests show_te provider h this (SetCurveName c # cs) =
     EccPkcsConverter_requests show_te provider h (EccPkcsConverter_setCurveName this c) cs"
| "EccPkcsConverter_requests show_te provider h this (Convert p q from to # cs) =
     snd (EccPkcsConverter_convert show_te provider h this p q from to)
       @ EccPkcsConverter_requests show_te provider h this cs"
| "EccPkcsConverter_requests show_te provider h this (DefaultConvert p q from to # cs) =
     snd (defaultConvert (EccPkcsConverter_convert show_te provider h this) p q from to)
       @ EccPkcsConverter_requests show_te provider h this cs"

fun EccEncodingConverter_requests ::
  "'te provider \<Rightarrow> 'te heap \<Rightarrow> EccEncodingConverter \<Rightarrow> call list \<Rightarrow> 'te request list" where
  "EccEncodingConverter_requests provider h this [] = []"
| "EccEncodingConverter_requests provider h this (SetCurveName c # cs) =
     EccEncodingConverter_requests provider h (EccEncodingConverter_setCurveName this c) cs"
| "EccEncodingConverter_requests provider h this (Convert p q from to # cs) =
     snd (EccEncodingConverter_convert provider h this p q from to)
       @ EccEncodingConverter_requests provider h this cs"
| "EccEncodingConverter_requests provider h this (DefaultConvert p q from to # cs) =
     snd (defaultConvert (EccEncodingConverter_convert provider h this) p q from to)
       @ EccEncodingConverter_requests provider h this cs"

subsection \<open>Concrete inputs for the examples\<close>

text \<open>
  A provider that answers every request with the same pair, different from every key text
  used in the examples, with \<open>string\<close> standing for TextEncoding.
\<close>

definition sample_provider :: "string provider" where
  "sample_provider req = Inr [''PRIV'', ''PUB'']"

text \<open>
  A store after two constructor calls with the same arguments: two objects, equal on every
  field, at the references 0 and 1.
\<close>

definition two_equal_specs :: "string heap" where
  "two_equal_specs =
     fst (new_PkcsEncodingProps (fst (new_PkcsEncodingProps [] Pkcs8 Pem)) Pkcs8 Pem)"

section \<open>Properties\<close>

subsection \<open>Evaluation of the table\<close>

lemma PkcsFormats_eval:
  "PkcsFormats =
     ([\<lparr>pkcs = Pkcs8, format = Pem, encoding = None\<rparr>,
       \<lparr>pkcs = Pkcs8, format = Der, encoding = None\<rparr>,
       \<lparr>pkcs = Pkcs1, format = Pem, encoding = None\<rparr>,
       \<lparr>pkcs = Pkcs1, format = Der, encoding = None\<rparr>,
       \<lparr>pkcs = Sec1, format = Pem, encoding = None\<rparr>,
       \<lparr>pkcs = Sec1, format = Der, encoding = None\<rparr>],
      [(''pkcs8_pem'', 0), (''pkcs8_der'', 1), (''pkcs1_pem'', 2), (''pkcs1_der'', 3),
       (''sec1_pem'', 4), (''sec1_der'', 5)])"
  by (simp add: PkcsFormats_def new_PkcsEncodingProps_def)

lemma PkcsFormats_heap_eval:
  "PkcsFormats_heap =
      [\<lparr>pkcs = Pkcs8, format = Pem, encoding = None\<rparr>,
       \<lparr>pkcs = Pkcs8, format = Der, encoding = None\<rparr>,
       \<lparr>pkcs = Pkcs1, format = Pem, encoding = None\<rparr>,
       \<lparr>pkcs = Pkcs1, format = Der, encoding = None\<rparr>,
       \<lparr>pkcs = Sec1, format = Pem, encoding = None\<rparr>,
       \<lparr>pkcs = Sec1, format = Der, encoding = None\<rparr>]"
  by (simp add: PkcsFormats_heap_def PkcsFormats_eval)

lemma PkcsFormats_get_eval:
  "PkcsFormats_get (P8 PKCS8_PEM) = Some 0" "PkcsFormats_get (P8 PKCS8_DER) = Some 1"
  "PkcsFormats_get (P1 PKCS1_PEM) = Some 2" "PkcsFormats_get (P1 PKCS1_DER) = Some 3"
  "PkcsFormats_get (S1 SEC1_PEM) = Some 4" "PkcsFormats_get (S1 SEC1_DER) = Some 5"
  by (simp_all add: PkcsFormats_get_def PkcsFormats_eval)

lemma PkcsFormat_cases:
  "ident \<in> {P8 PKCS8_PEM, P8 PKCS8_DER, P1 PKCS1_PEM, P1 PKCS1_DER, S1 SEC1_PEM, S1 SEC1_DER}"
proof (cases ident)
  case (P8 f) then show ?thesis by (cases f) simp_all
next
  case (S1 f) then show ?thesis by (cases f) simp_all
next
  case (P1 f) then show ?thesis by (cases f) simp_all
qed

lemma two_equal_specs_eval:
  "two_equal_specs = [\<lparr>pkcs = Pkcs8, format = Pem, encoding = None\<rparr>,
                      \<lparr>pkcs = Pkcs8, format = Pem, encoding = None\<rparr>]"
  by (simp add: two_equal_specs_def new_PkcsEncodingProps_def)

subsection \<open>The RSA container converter\<close>

text \<open>
  C2. \<open>RsaPkcsConverter.convert\<close>: when \<open>from.pkcs\<close> and \<open>to.pkcs\<close> are both PKCS1 or
  PKCS8, it issues exactly one provider request, \<open>rsa_transfer_key\<close> with the two keys and
  the two formats, and its outcome is the provider's answer; when \<open>from.pkcs\<close> or
  \<open>to.pkcs\<close> is SEC1, it fails with the converter's own Error and issues no request.
\<close>

theorem RsaPkcsConverter_legal_set:
  assumes "from < length h" and "to < length h"
  shows "(pkcs (h ! from) \<in> {Pkcs1, Pkcs8} \<and> pkcs (h ! to) \<in> {Pkcs1, Pkcs8} \<longrightarrow>
            RsaPkcsConverter_convert show_te provider h p q from to
              = (case provider (rsa_transfer_key p q (h ! from) (h ! to)) of
                   Inl m \<Rightarrow> Inl (ProviderFailure m) | Inr keys \<Rightarrow> Inr keys,
                 [rsa_transfer_key p q (h ! from) (h ! to)]))
       \<and> (pkcs (h ! from) = Sec1 \<or> pkcs (h ! to) = Sec1 \<longrightarrow>
            (\<exists>msg. RsaPkcsConverter_convert show_te provider h p q from to
                     = (Inl (JsError msg), [])))"
  by (auto simp: RsaPkcsConverter_convert_def Let_def invoke_def split: sum.split)

theorem RsaPkcsConverter_legal_set_witness:
  "(2::nat) < length (PkcsFormats_heap :: string heap)
   \<and> (0::nat) < length (PkcsFormats_heap :: string heap)
   \<and> (4::nat) < length (PkcsFormats_heap :: string heap)
   \<and> pkcs ((PkcsFormats_heap :: string heap) ! 2) = Pkcs1
   \<and> pkcs ((PkcsFormats_heap :: string heap) ! 0) = Pkcs8
   \<and> pkcs ((PkcsFormats_heap :: string heap) ! 4) = Sec1
   \<and> RsaPkcsConverter_convert id sample_provider PkcsFormats_heap ''p'' ''q'' 2 0
       = (Inr [''PRIV'', ''PUB''],
          [rsa_transfer_key ''p'' ''q'' \<lparr>pkcs = Pkcs1, format = Pem, encoding = None\<rparr>
             \<lparr>pkcs = Pkcs8, format = Pem, encoding = None\<rparr>])
   \<and> (\<exists>msg. RsaPkcsConverter_convert id sample_provider PkcsFormats_heap ''p'' ''q'' 4 0
          = (Inl (JsError msg), []))"
  using RsaPkcsConverter_legal_set
      [of 2 "PkcsFormats_heap :: string heap" 0 id sample_provider "''p''" "''q''"]
    RsaPkcsConverter_legal_set
      [of 4 "PkcsFormats_heap :: string heap" 0 id sample_provider "''p''" "''q''"]
  by (simp add: PkcsFormats_heap_eval sample_provider_def)

subsection \<open>The elliptic-curve container converter\<close>

text \<open>
  C3. \<open>EccPkcsConverter.convert\<close>: when \<open>from.pkcs\<close> and \<open>to.pkcs\<close> are both PKCS8 or
  SEC1, it issues exactly one provider request, \<open>ecc_transfer_key\<close> with the instance's
  curve, the two keys and the two formats, and its outcome is the provider's answer; when
  \<open>from.pkcs\<close> or \<open>to.pkcs\<close> is PKCS1, it fails with the converter's own Error and issues
  no request.
\<close>

theorem EccPkcsConverter_legal_set:
  assumes "from < length h" and "to < length h"
  shows "(pkcs (h ! from) \<in> {Pkcs8, Sec1} \<and> pkcs (h ! to) \<in> {Pkcs8, Sec1} \<longrightarrow>
            EccPkcsConverter_convert show_te provider h this p q from to
              = (case provider (ecc_transfer_key (EccPkcsConverter.curveName this) p q
                                  (h ! from) (h ! to)) of
                   Inl m \<Rightarrow> Inl (ProviderFailure m) | Inr keys \<Rightarrow> Inr keys,
                 [ecc_transfer_key (EccPkcsConverter.curveName this) p q (h ! from) (h ! to)]))
       \<and> (pkcs (h ! from) = Pkcs1 \<or> pkcs (h ! to) = Pkcs1 \<longrightarrow>
            (\<exists>msg. EccPkcsConverter_convert show_te provider h this p q from to
                     = (Inl (JsError msg), [])))"
  by (auto simp: EccPkcsConverter_convert_def Let_def invoke_def split: sum.split)

theorem EccPkcsConverter_legal_set_witness:
  "(4::nat) < length (PkcsFormats_heap :: string heap)
   \<and> (1::nat) < length (PkcsFormats_heap :: string heap)
   \<and> (3::nat) < length (PkcsFormats_heap :: string heap)
   \<and> pkcs ((PkcsFormats_heap :: string heap) ! 4) = Sec1
   \<and> pkcs ((PkcsFormats_heap :: string heap) ! 1) = Pkcs8
   \<and> pkcs ((PkcsFormats_heap :: string heap) ! 3) = Pkcs1
   \<and> EccPkcsConverter_convert id sample_provider PkcsFormats_heap new_EccPkcsConverter
         ''p'' ''q'' 4 1
       = (Inr [''PRIV'', ''PUB''],
          [ecc_transfer_key NIST_P256 ''p'' ''q''
             \<lparr>pkcs = Sec1, format = Pem, encoding = None\<rparr>
             \<lparr>pkcs = Pkcs8, format = Der, encoding = None\<rparr>])
   \<and> (\<exists>msg. EccPkcsConverter_convert id sample_provider PkcsFormats_heap new_EccPkcsConverter
          ''p'' ''q'' 4 3 = (Inl (JsError msg), []))"
  using EccPkcsConverter_legal_set
      [of 4 "PkcsFormats_heap :: string heap" 1 id sample_provider new_EccPkcsConverter
         "''p''" "''q''"]
    EccPkcsConverter_legal_set
      [of 4 "PkcsFormats_heap :: string heap" 3 id sample_provider new_EccPkcsConverter
         "''p''" "''q''"]
  by (simp add: PkcsFormats_heap_eval sample_provider_def new_EccPkcsConverter_def)

subsection \<open>The identity shortcut\<close>

text \<open>
  C1, amended. \<open>defaultConvert\<close> called with \<open>from\<close> and \<open>to\<close> the same object (the same
  reference, as \<open>===\<close> tests) returns exactly the two keys it was given and issues no
  provider request, whatever the converter; called with two different objects it is
  \<open>convert\<close>, whatever their fields hold.
\<close>

theorem defaultConvert_same_reference:
  "defaultConvert convert p q f f = (Inr [p, q], [])
   \<and> (from \<noteq> to \<longrightarrow> defaultConvert convert p q from to = convert p q from to)"
  by (simp add: defaultConvert_def)

theorem defaultConvert_same_reference_witness:
  "defaultConvert (RsaPkcsConverter_convert id sample_provider PkcsFormats_heap) ''p'' ''q'' 5 5
     = (Inr [''p'', ''q''], [])
   \<and> (0::nat) \<noteq> 1
   \<and> defaultConvert (RsaPkcsConverter_convert id sample_provider PkcsFormats_heap) ''p'' ''q'' 0 1
       = RsaPkcsConverter_convert id sample_provider PkcsFormats_heap ''p'' ''q'' 0 1"
  using defaultConvert_same_reference
      [of "RsaPkcsConverter_convert id sample_provider PkcsFormats_heap" "''p''" "''q''" 5 0 1]
   defaultConvert_same_reference
      [of "RsaPkcsConverter_convert id sample_provider PkcsFormats_heap" "''p''" "''q''" 5 5 5]
  by simp

text \<open>
  C1 as stated fails: the two objects of \<open>two_equal_specs\<close> are equal on every field, yet
  \<open>defaultConvert\<close> of the RSA container converter on them sends one request and returns
  the provider's answer, not the two keys.
\<close>

theorem structurally_equal_not_shortcut:
  "two_equal_specs ! 0 = two_equal_specs ! 1
   \<and> defaultConvert (RsaPkcsConverter_convert id sample_provider two_equal_specs)
        ''p'' ''q'' 0 1
     = (Inr [''PRIV'', ''PUB''],
        [rsa_transfer_key ''p'' ''q'' \<lparr>pkcs = Pkcs8, format = Pem, encoding = None\<rparr>
           \<lparr>pkcs = Pkcs8, format = Pem, encoding = None\<rparr>])
   \<and> defaultConvert (RsaPkcsConverter_convert id sample_provider two_equal_specs)
        ''p'' ''q'' 0 1
     \<noteq> (Inr [''p'', ''q''], [])"
  by (simp add: two_equal_specs_eval defaultConvert_def RsaPkcsConverter_convert_def
      invoke_def sample_provider_def Let_def)

subsection \<open>Serialization-only conversions in the container converters\<close>

text \<open>
  C4, amended. A conversion that keeps the container kind and changes only PEM/DER goes
  through the same switch as any other: the RSA container converter accepts it, with
  exactly one provider request, when the kind is PKCS1 or PKCS8 and rejects it with no
  request when the kind is SEC1; the elliptic-curve container converter accepts it, with
  exactly one provider request, when the kind is PKCS8 or SEC1 and rejects it with no
  request when the kind is PKCS1.
\<close>

theorem serialization_only_by_family:
  assumes "from < length h" and "to < length h"
    and "pkcs (h ! from) = pkcs (h ! to)" and "format (h ! from) \<noteq> format (h ! to)"
  shows "(pkcs (h ! from) \<in> {Pkcs1, Pkcs8} \<longrightarrow>
            RsaPkcsConverter_convert show_te provider h p q from to
              = (case provider (rsa_transfer_key p q (h ! from) (h ! to)) of
                   Inl m \<Rightarrow> Inl (ProviderFailure m) | Inr keys \<Rightarrow> Inr keys,
                 [rsa_transfer_key p q (h ! from) (h ! to)]))
       \<and> (pkcs (h ! from) = Sec1 \<longrightarrow>
            (\<exists>msg. RsaPkcsConverter_convert show_te provider h p q from to
                     = (Inl (JsError msg), [])))
       \<and> (pkcs (h ! from) \<in> {Pkcs8, Sec1} \<longrightarrow>
            EccPkcsConverter_convert show_te provider h this p q from to
              = (case provider (ecc_transfer_key (EccPkcsConverter.curveName this) p q
                                  (h ! from) (h ! to)) of
                   Inl m \<Rightarrow> Inl (ProviderFailure m) | Inr keys \<Rightarrow> Inr keys,
                 [ecc_transfer_key (EccPkcsConverter.curveName this) p q (h ! from) (h ! to)]))
       \<and> (pkcs (h ! from) = Pkcs1 \<longrightarrow>
            (\<exists>msg. EccPkcsConverter_convert show_te provider h this p q from to
                     = (Inl (JsError msg), [])))"
proof -
  have rsa: "RsaPkcsConverter_convert show_te provider h p q from to =
      (if pkcs (h ! to) = Sec1
       then (Inl (JsError (unsupported_message show_te (h ! from) (h ! to))), [])
       else invoke provider (rsa_transfer_key p q (h ! from) (h ! to)))"
    using assms(3) by (cases "pkcs (h ! to)") (simp_all add: RsaPkcsConverter_convert_def)
  have ecc: "EccPkcsConverter_convert show_te provider h this p q from to =
      (if pkcs (h ! to) = Pkcs1
       then (Inl (JsError (unsupported_message show_te (h ! from) (h ! to))), [])
       else invoke provider
              (ecc_transfer_key (EccPkcsConverter.curveName this) p q (h ! from) (h ! to)))"
    using assms(3) by (cases "pkcs (h ! to)") (simp_all add: EccPkcsConverter_convert_def)
  show ?thesis
    unfolding rsa ecc using assms(3)
    by (auto simp: invoke_def split: sum.split)
qed

theorem serialization_only_by_family_witness:
  "(2::nat) < length (PkcsFormats_heap :: string heap)
   \<and> (3::nat) < length (PkcsFormats_heap :: string heap)
   \<and> pkcs ((PkcsFormats_heap :: string heap) ! 2) = pkcs ((PkcsFormats_heap :: string heap) ! 3)
   \<and> format ((PkcsFormats_heap :: string heap) ! 2)
       \<noteq> format ((PkcsFormats_heap :: string heap) ! 3)
   \<and> pkcs ((PkcsFormats_heap :: string heap) ! 2) = Pkcs1
   \<and> RsaPkcsConverter_convert id sample_provider PkcsFormats_heap ''p'' ''q'' 2 3
       = (Inr [''PRIV'', ''PUB''],
          [rsa_transfer_key ''p'' ''q'' \<lparr>pkcs = Pkcs1, format = Pem, encoding = None\<rparr>
             \<lparr>pkcs = Pkcs1, format = Der, encoding = None\<rparr>])
   \<and> (\<exists>msg. EccPkcsConverter_convert id sample_provider PkcsFormats_heap new_EccPkcsConverter
          ''p'' ''q'' 2 3 = (Inl (JsError msg), []))
   \<and> (5::nat) < length (PkcsFormats_heap :: string heap)
   \<and> (4::nat) < length (PkcsFormats_heap :: string heap)
   \<and> pkcs ((PkcsFormats_heap :: string heap) ! 5) = pkcs ((PkcsFormats_heap :: string heap) ! 4)
   \<and> format ((PkcsFormats_heap :: string heap) ! 5)
       \<noteq> format ((PkcsFormats_heap :: string heap) ! 4)
   \<and> pkcs ((PkcsFormats_heap :: string heap) ! 5) = Sec1
   \<and> EccPkcsConverter_convert id sample_provider PkcsFormats_heap new_EccPkcsConverter
         ''p'' ''q'' 5 4
       = (Inr [''PRIV'', ''PUB''],
          [ecc_transfer_key NIST_P256 ''p'' ''q''
             \<lparr>pkcs = Sec1, format = Der, encoding = None\<rparr>
             \<lparr>pkcs = Sec1, format = Pem, encoding = None\<rparr>])
   \<and> (\<exists>msg. RsaPkcsConverter_convert id sample_provider PkcsFormats_heap ''p'' ''q'' 5 4
          = (Inl (JsError msg), []))"
  using serialization_only_by_family
      [of 2 "PkcsFormats_heap :: string heap" 3 id sample_provider "''p''" "''q''"
         new_EccPkcsConverter]
    serialization_only_by_family
      [of 5 "PkcsFormats_heap :: string heap" 4 id sample_provider "''p''" "''q''"
         new_EccPkcsConverter]
  by (simp add: PkcsFormats_heap_eval sample_provider_def new_EccPkcsConverter_def)

text \<open>
  C4 as stated fails: from the table's \<open>sec1_pem\<close> object to its \<open>sec1_der\<close> object the
  container kind is the same and the serialization differs, and the RSA container
  converter rejects the conversion without a provider request.
\<close>

theorem serialization_only_RSA_SEC1_rejected:
  "pkcs ((PkcsFormats_heap :: string heap) ! 4) = pkcs ((PkcsFormats_heap :: string heap) ! 5)
   \<and> format ((PkcsFormats_heap :: string heap) ! 4) = Pem
   \<and> format ((PkcsFormats_heap :: string heap) ! 5) = Der
   \<and> RsaPkcsConverter_convert id sample_provider PkcsFormats_heap ''p'' ''q'' 4 5
       = (Inl (JsError
            ''unsupported pkcs: sec1 encoding: undefined convert pkcs: sec1 encoding: undefined''),
          [])"
  by (simp add: PkcsFormats_heap_eval RsaPkcsConverter_convert_def unsupported_message_def
      encoding_text_def)

subsection \<open>The encoding converters\<close>

text \<open>
  C5. For two formats that are not equal field by field, whatever their container kinds,
  \<open>convert\<close> of the RSA and of the elliptic-curve encoding converter issues exactly one
  provider request and its outcome is the provider's answer; it never fails with the
  converters' own Error; and \<open>defaultConvert\<close> does the same, the two references being
  different.
\<close>

theorem encoding_converters_delegate:
  assumes "from < length h" and "to < length h" and "h ! from \<noteq> h ! to"
  shows "RsaEncodingConverter_convert provider h p q from to
           = (case provider (rsa_transfer_key p q (h ! from) (h ! to)) of
                Inl m \<Rightarrow> Inl (ProviderFailure m) | Inr keys \<Rightarrow> Inr keys,
              [rsa_transfer_key p q (h ! from) (h ! to)])
       \<and> defaultConvert (RsaEncodingConverter_convert provider h) p q from to
           = RsaEncodingConverter_convert provider h p q from to
       \<and> EccEncodingConverter_convert provider h this p q from to
           = (case provider (ecc_transfer_key (EccEncodingConverter.curveName this) p q
                               (h ! from) (h ! to)) of
                Inl m \<Rightarrow> Inl (ProviderFailure m) | Inr keys \<Rightarrow> Inr keys,
              [ecc_transfer_key (EccEncodingConverter.curveName this) p q (h ! from) (h ! to)])
       \<and> defaultConvert (EccEncodingConverter_convert provider h this) p q from to
           = EccEncodingConverter_convert provider h this p q from to
       \<and> (\<forall>msg. fst (RsaEncodingConverter_convert provider h p q from to) \<noteq> Inl (JsError msg))
       \<and> (\<forall>msg. fst (EccEncodingConverter_convert provider h this p q from to)
                   \<noteq> Inl (JsError msg))"
proof -
  from assms(3) have "from \<noteq> to" by auto
  then show ?thesis
    by (simp add: RsaEncodingConverter_convert_def EccEncodingConverter_convert_def
        defaultConvert_def invoke_def split: sum.split)
qed

theorem encoding_converters_delegate_witness:
  "(2::nat) < length (PkcsFormats_heap :: string heap)
   \<and> (4::nat) < length (PkcsFormats_heap :: string heap)
   \<and> (PkcsFormats_heap :: string heap) ! 2 \<noteq> PkcsFormats_heap ! 4
   \<and> defaultConvert (RsaEncodingConverter_convert sample_provider PkcsFormats_heap)
        ''p'' ''q'' 2 4
       = (Inr [''PRIV'', ''PUB''],
          [rsa_transfer_key ''p'' ''q'' \<lparr>pkcs = Pkcs1, format = Pem, encoding = None\<rparr>
             \<lparr>pkcs = Sec1, format = Pem, encoding = None\<rparr>])
   \<and> defaultConvert (EccEncodingConverter_convert sample_provider PkcsFormats_heap
          new_EccEncodingConverter) ''p'' ''q'' 2 4
       = (Inr [''PRIV'', ''PUB''],
          [ecc_transfer_key NIST_P256 ''p'' ''q''
             \<lparr>pkcs = Pkcs1, format = Pem, encoding = None\<rparr>
             \<lparr>pkcs = Sec1, format = Pem, encoding = None\<rparr>])"
  using encoding_converters_delegate
      [of 2 "PkcsFormats_heap :: string heap" 4 sample_provider "''p''" "''q''"
         new_EccEncodingConverter]
  by (simp add: PkcsFormats_heap_eval sample_provider_def new_EccEncodingConverter_def)

subsection \<open>The failure of a rejected transition\<close>

text \<open>
  C6, amended. Whenever a container converter fails with its own Error, it has issued no
  provider request, and the Error's message is the text
  \<^verbatim>\<open>unsupported pkcs: <from.pkcs> encoding: <from.encoding> convert pkcs: <to.pkcs> encoding: <to.encoding>\<close>:
  it holds the container kinds and the text encodings of the two formats, and neither the
  key family nor the serializations.
\<close>

theorem unsupported_error_before_provider:
  assumes "from < length h" and "to < length h"
  shows "(fst (RsaPkcsConverter_convert show_te provider h p q from to) = Inl (JsError msg) \<longrightarrow>
            snd (RsaPkcsConverter_convert show_te provider h p q from to) = []
          \<and> msg = ''unsupported pkcs: '' @ Pkcs_value (pkcs (h ! from)) @ '' encoding: ''
                @ encoding_text show_te (encoding (h ! from))
                @ '' convert pkcs: '' @ Pkcs_value (pkcs (h ! to)) @ '' encoding: ''
                @ encoding_text show_te (encoding (h ! to)))
       \<and> (fst (EccPkcsConverter_convert show_te provider h this p q from to) = Inl (JsError msg) \<longrightarrow>
            snd (EccPkcsConverter_convert show_te provider h this p q from to) = []
          \<and> msg = ''unsupported pkcs: '' @ Pkcs_value (pkcs (h ! from)) @ '' encoding: ''
                @ encoding_text show_te (encoding (h ! from))
                @ '' convert pkcs: '' @ Pkcs_value (pkcs (h ! to)) @ '' encoding: ''
                @ encoding_text show_te (encoding (h ! to)))"
  by (simp add: RsaPkcsConverter_convert_def EccPkcsConverter_convert_def Let_def invoke_def
      unsupported_message_def split: sum.split)

theorem unsupported_error_before_provider_witness:
  "(4::nat) < length (fst (setEncoding (PkcsFormats_heap :: string heap) 4 ''hex''))
   \<and> (2::nat) < length (fst (setEncoding (PkcsFormats_heap :: string heap) 4 ''hex''))
   \<and> fst (RsaPkcsConverter_convert id sample_provider
            (fst (setEncoding PkcsFormats_heap 4 ''hex'')) ''p'' ''q'' 4 2)
       = Inl (JsError
           ''unsupported pkcs: sec1 encoding: hex convert pkcs: pkcs1 encoding: undefined'')
   \<and> snd (RsaPkcsConverter_convert id sample_provider
            (fst (setEncoding PkcsFormats_heap 4 ''hex'')) ''p'' ''q'' 4 2) = []
   \<and> fst (EccPkcsConverter_convert id sample_provider
            (fst (setEncoding PkcsFormats_heap 4 ''hex'')) new_EccPkcsConverter ''p'' ''q'' 4 2)
       = Inl (JsError
           ''unsupported pkcs: sec1 encoding: hex convert pkcs: pkcs1 encoding: undefined'')
   \<and> snd (EccPkcsConverter_convert id sample_provider
            (fst (setEncoding PkcsFormats_heap 4 ''hex'')) new_EccPkcsConverter ''p'' ''q'' 4 2) = []"
  using unsupported_error_before_provider
      [of 4 "fst (setEncoding (PkcsFormats_heap :: string heap) 4 ''hex'')" 2 id sample_provider
         "''p''" "''q''"
         "''unsupported pkcs: sec1 encoding: hex convert pkcs: pkcs1 encoding: undefined''"
         new_EccPkcsConverter]
  by (simp add: PkcsFormats_heap_eval setEncoding_def RsaPkcsConverter_convert_def
      EccPkcsConverter_convert_def unsupported_message_def encoding_text_def)

text \<open>
  C6 as stated fails: for the table's \<open>pkcs1_pem\<close> and \<open>sec1_pem\<close> objects the RSA and the
  elliptic-curve container converter fail with one and the same value, so the failure
  does not tell the family; and from \<open>pkcs1_der\<close> instead of \<open>pkcs1_pem\<close> the failure is
  the same again, so it does not tell the format it came from.
\<close>

theorem unsupported_error_omits_family_and_serialization:
  "RsaPkcsConverter_convert id sample_provider PkcsFormats_heap ''p'' ''q'' 2 4
     = (Inl (JsError
          ''unsupported pkcs: pkcs1 encoding: undefined convert pkcs: sec1 encoding: undefined''),
        [])
   \<and> EccPkcsConverter_convert id sample_provider PkcsFormats_heap new_EccPkcsConverter
        ''p'' ''q'' 2 4
     = RsaPkcsConverter_convert id sample_provider PkcsFormats_heap ''p'' ''q'' 2 4
   \<and> format ((PkcsFormats_heap :: string heap) ! 2) \<noteq> format ((PkcsFormats_heap :: string heap) ! 3)
   \<and> RsaPkcsConverter_convert id sample_provider PkcsFormats_heap ''p'' ''q'' 3 4
     = RsaPkcsConverter_convert id sample_provider PkcsFormats_heap ''p'' ''q'' 2 4"
  by (simp add: PkcsFormats_heap_eval RsaPkcsConverter_convert_def EccPkcsConverter_convert_def
      unsupported_message_def encoding_text_def)

subsection \<open>The format table\<close>

text \<open>
  C8. Every one of the six format identifiers has an entry in \<open>PkcsFormats\<close>; the entry is
  an object of the store built with the table, and the string values of its container kind
  and its serialization, joined by an underscore, are the identifier's string value.
\<close>

theorem PkcsFormats_total_consistent:
  "\<exists>r. PkcsFormats_get ident = Some r
      \<and> r < length (PkcsFormats_heap :: 'te heap)
      \<and> Pkcs_value (pkcs ((PkcsFormats_heap :: 'te heap) ! r)) @ ''_''
          @ KeyFormat_value (format ((PkcsFormats_heap :: 'te heap) ! r))
        = PkcsFormat_value ident"
  using PkcsFormat_cases [of ident]
  by (auto simp: PkcsFormats_get_eval PkcsFormats_heap_eval)

subsection \<open>setEncoding\<close>

text \<open>
  C10. \<open>setEncoding(e)\<close> on a live object returns the receiver's own reference and
  allocates nothing; afterwards the receiver's \<open>encoding\<close> is \<open>e\<close>, its \<open>pkcs\<close> and
  \<open>format\<close> are what they were, and every other object is what it was. For an object
  reached through \<open>PkcsFormats\<close>, in any store that still holds the table's objects, a
  later read of the same table entry sees the encoding that was set.
\<close>

theorem setEncoding_in_place:
  "(this < length h \<longrightarrow>
      snd (setEncoding h this e) = this
    \<and> length (fst (setEncoding h this e)) = length h
    \<and> pkcs (fst (setEncoding h this e) ! this) = pkcs (h ! this)
    \<and> format (fst (setEncoding h this e) ! this) = format (h ! this)
    \<and> encoding (fst (setEncoding h this e) ! this) = Some e
    \<and> (\<forall>r. r \<noteq> this \<longrightarrow> fst (setEncoding h this e) ! r = h ! r))
   \<and> (PkcsFormats_get ident = Some r \<and> length (PkcsFormats_heap :: 'te heap) \<le> length h' \<longrightarrow>
        snd (setEncoding h' r e) = r
      \<and> encoding (fst (setEncoding h' r e) ! the (PkcsFormats_get ident)) = Some e)"
proof (intro conjI impI)
  assume "PkcsFormats_get ident = Some r \<and> length (PkcsFormats_heap :: 'te heap) \<le> length h'"
  then have "r < length h'" and "the (PkcsFormats_get ident) = r"
    using PkcsFormat_cases [of ident]
    by (auto simp: PkcsFormats_get_eval PkcsFormats_heap_eval)
  then show "encoding (fst (setEncoding h' r e) ! the (PkcsFormats_get ident)) = Some e"
    by (simp add: setEncoding_def)
qed (simp_all add: setEncoding_def)

theorem setEncoding_in_place_witness:
  "(4::nat) < length (PkcsFormats_heap :: string heap)
   \<and> PkcsFormats_get (S1 SEC1_PEM) = Some 4
   \<and> setEncoding (PkcsFormats_heap :: string heap) 4 ''hex''
       = ([\<lparr>pkcs = Pkcs8, format = Pem, encoding = None\<rparr>,
           \<lparr>pkcs = Pkcs8, format = Der, encoding = None\<rparr>,
           \<lparr>pkcs = Pkcs1, format = Pem, encoding = None\<rparr>,
           \<lparr>pkcs = Pkcs1, format = Der, encoding = None\<rparr>,
           \<lparr>pkcs = Sec1, format = Pem, encoding = Some ''hex''\<rparr>,
           \<lparr>pkcs = Sec1, format = Der, encoding = None\<rparr>], 4)
   \<and> encoding (fst (setEncoding (PkcsFormats_heap :: string heap) 4 ''hex'')
                 ! the (PkcsFormats_get (S1 SEC1_PEM))) = Some ''hex''"
  using setEncoding_in_place
      [of 4 "PkcsFormats_heap :: string heap" "''hex''" "S1 SEC1_PEM" 4
         "PkcsFormats_heap :: string heap"]
  by (simp add: PkcsFormats_heap_eval PkcsFormats_get_eval setEncoding_def)

subsection \<open>The curve of an elliptic-curve converter\<close>

lemma EccPkcsConverter_convert_requests:
  "req \<in> set (snd (EccPkcsConverter_convert show_te provider h this p q from to)) \<Longrightarrow>
     \<exists>f t. req = ecc_transfer_key (EccPkcsConverter.curveName this) p q f t"
  by (auto simp: EccPkcsConverter_convert_def Let_def invoke_def split: if_splits sum.splits)

lemma EccEncodingConverter_convert_requests:
  "req \<in> set (snd (EccEncodingConverter_convert provider h this p q from to)) \<Longrightarrow>
     \<exists>f t. req = ecc_transfer_key (EccEncodingConverter.curveName this) p q f t"
  by (auto simp: EccEncodingConverter_convert_def invoke_def split: sum.splits)

lemma defaultConvert_requests:
  "req \<in> set (snd (defaultConvert convert p q from to)) \<Longrightarrow>
     req \<in> set (snd (convert p q from to))"
  by (simp add: defaultConvert_def split: if_splits)

lemma EccPkcsConverter_requests_curve:
  "\<forall>c. SetCurveName c \<notin> set cs \<Longrightarrow>
   req \<in> set (EccPkcsConverter_requests show_te provider h this cs) \<Longrightarrow>
   \<exists>p q f t. req = ecc_transfer_key (EccPkcsConverter.curveName this) p q f t"
proof (induction cs)
  case Nil
  then show ?case by simp
next
  case (Cons a cs)
  show ?case
  proof (cases a)
    case (SetCurveName c)
    with Cons.prems show ?thesis by auto
  next
    case (Convert p q src dst)
    with Cons show ?thesis
      by (auto dest: EccPkcsConverter_convert_requests)
  next
    case (DefaultConvert p q src dst)
    with Cons show ?thesis
      by (auto dest!: defaultConvert_requests dest: EccPkcsConverter_convert_requests)
  qed
qed

lemma EccEncodingConverter_requests_curve:
  "\<forall>c. SetCurveName c \<notin> set cs \<Longrightarrow>
   req \<in> set (EccEncodingConverter_requests provider h this cs) \<Longrightarrow>
   \<exists>p q f t. req = ecc_transfer_key (EccEncodingConverter.curveName this) p q f t"
proof (induction cs)
  case Nil
  then show ?case by simp
next
  case (Cons a cs)
  show ?case
  proof (cases a)
    case (SetCurveName c)
    with Cons.prems show ?thesis by auto
  next
    case (Convert p q src dst)
    with Cons show ?thesis
      by (auto dest: EccEncodingConverter_convert_requests)
  next
    case (DefaultConvert p q src dst)
    with Cons show ?thesis
      by (auto dest!: defaultConvert_requests dest: EccEncodingConverter_convert_requests)
  qed
qed

text \<open>
  C9. The string value of \<open>NIST_P256\<close> is \<open>nistp256\<close>. Over any sequence of \<open>convert\<close>
  and \<open>defaultConvert\<close> calls that contains no \<open>setCurveName\<close>: on a fresh elliptic-curve
  converter (container or encoding) every provider request is \<open>ecc_transfer_key\<close> with
  the curve \<open>NIST_P256\<close>; and after \<open>setCurveName(c)\<close> on a converter in any state, every
  provider request is \<open>ecc_transfer_key\<close> with the curve \<open>c\<close>, whatever the formats.
\<close>

theorem ecc_curve_default_and_set:
  assumes "\<forall>c'. SetCurveName c' \<notin> set cs"
  shows "CurveName_value NIST_P256 = ''nistp256''
    \<and> (\<forall>req \<in> set (EccPkcsConverter_requests show_te provider h new_EccPkcsConverter cs).
          \<exists>p q f t. req = ecc_transfer_key NIST_P256 p q f t)
    \<and> (\<forall>req \<in> set (EccEncodingConverter_requests provider h new_EccEncodingConverter cs).
          \<exists>p q f t. req = ecc_transfer_key NIST_P256 p q f t)
    \<and> (\<forall>req \<in> set (EccPkcsConverter_requests show_te provider h this (SetCurveName c # cs)).
          \<exists>p q f t. req = ecc_transfer_key c p q f t)
    \<and> (\<forall>req \<in> set (EccEncodingConverter_requests provider h that (SetCurveName c # cs)).
          \<exists>p q f t. req = ecc_transfer_key c p q f t)"
proof (intro conjI ballI)
  show "CurveName_value NIST_P256 = ''nistp256''" by simp
next
  fix req assume "req \<in> set (EccPkcsConverter_requests show_te provider h new_EccPkcsConverter cs)"
  from EccPkcsConverter_requests_curve [OF assms this]
  show "\<exists>p q f t. req = ecc_transfer_key NIST_P256 p q f t"
    by (simp add: new_EccPkcsConverter_def)
next
  fix req assume "req \<in> set (EccEncodingConverter_requests provider h new_EccEncodingConverter cs)"
  from EccEncodingConverter_requests_curve [OF assms this]
  show "\<exists>p q f t. req = ecc_transfer_key NIST_P256 p q f t"
    by (simp add: new_EccEncodingConverter_def)
next
  fix req
  assume "req \<in> set (EccPkcsConverter_requests show_te provider h this (SetCurveName c # cs))"
  then have "req \<in> set (EccPkcsConverter_requests show_te provider h
                          (EccPkcsConverter_setCurveName this c) cs)"
    by simp
  from EccPkcsConverter_requests_curve [OF assms this]
  show "\<exists>p q f t. req = ecc_transfer_key c p q f t"
    by (simp add: EccPkcsConverter_setCurveName_def)
next
  fix req
  assume "req \<in> set (EccEncodingConverter_requests provider h that (SetCurveName c # cs))"
  then have "req \<in> set (EccEncodingConverter_requests provider h
                          (EccEncodingConverter_setCurveName that c) cs)"
    by simp
  from EccEncodingConverter_requests_curve [OF assms this]
  show "\<exists>p q f t. req = ecc_transfer_key c p q f t"
    by (simp add: EccEncodingConverter_setCurveName_def)
qed


theorem ecc_curve_default_and_set_witness:
  "(\<forall>c'. SetCurveName c' \<notin> set [Convert ''p'' ''q'' 0 4, DefaultConvert ''r'' ''s'' 5 4])
   \<and> EccPkcsConverter_requests id sample_provider PkcsFormats_heap new_EccPkcsConverter
        [Convert ''p'' ''q'' 0 4, DefaultConvert ''r'' ''s'' 5 4]
       = [ecc_transfer_key NIST_P256 ''p'' ''q''
            \<lparr>pkcs = Pkcs8, format = Pem, encoding = None\<rparr>
            \<lparr>pkcs = Sec1, format = Pem, encoding = None\<rparr>,
          ecc_transfer_key NIST_P256 ''r'' ''s''
            \<lparr>pkcs = Sec1, format = Der, encoding = None\<rparr>
            \<lparr>pkcs = Sec1, format = Pem, encoding = None\<rparr>]
   \<and> EccEncodingConverter_requests sample_provider PkcsFormats_heap new_EccEncodingConverter
        (SetCurveName Secp256k1 # [Convert ''p'' ''q'' 0 4, DefaultConvert ''r'' ''s'' 5 4])
       = [ecc_transfer_key Secp256k1 ''p'' ''q''
            \<lparr>pkcs = Pkcs8, format = Pem, encoding = None\<rparr>
            \<lparr>pkcs = Sec1, format = Pem, encoding = None\<rparr>,
          ecc_transfer_key Secp256k1 ''r'' ''s''
            \<lparr>pkcs = Sec1, format = Der, encoding = None\<rparr>
            \<lparr>pkcs = Sec1, format = Pem, encoding = None\<rparr>]"
  using ecc_curve_default_and_set
      [of "[Convert ''p'' ''q'' 0 4, DefaultConvert ''r'' ''s'' 5 4]" id sample_provider
         "PkcsFormats_heap :: string heap" new_EccPkcsConverter Secp256k1
         new_EccEncodingConverter]
  by (simp add: PkcsFormats_heap_eval sample_provider_def new_EccPkcsConverter_def
      new_EccEncodingConverter_def EccPkcsConverter_convert_def EccEncodingConverter_convert_def
      EccEncodingConverter_setCurveName_def defaultConvert_def invoke_def Let_def)

end
